theory Spec2Isabelle
  imports Main "HOL-Library.Multiset" "HOL-Library.Product_Lexorder"
begin

section \<open>The chat backend: store, repository functions and request handlers\<close>

text \<open>
  The backend (\<^verbatim>\<open>backend/src/db.ts\<close>, \<^verbatim>\<open>backend/src/ai.ts\<close>,
  \<^verbatim>\<open>backend/src/index.ts\<close>) keeps three relations in a PostgreSQL store and
  answers HTTP requests by running a few SQL statements and, for a chat turn, one call of
  the text-generation provider. The embedding passes the store explicitly: each
  repository function takes the store and returns its result together with the new store.
  A rejected promise (a thrown error) is the value \<open>Inl\<close> of a sum. What the
  handlers cannot decide themselves (whether a call reaches the store, the store's clock,
  the order in which the store delivers rows of equal sort key, the provider's answer) is
  an argument of the model, so that every theorem holds for all of it or names what it
  assumes of it.
\<close>

subsection \<open>Strings\<close>

text \<open>
  A JavaScript string is a list of UTF-16 code units. \<open>utf16\<close> writes an ASCII
  literal as such a list. \<^verbatim>\<open>trim\<close> strips the WhiteSpace and LineTerminator code
  points of ECMAScript (tab, LF, VT, FF, CR, space, U+00A0, U+FEFF, U+2028, U+2029 and the
  class Zs: U+1680, U+2000 to U+200A, U+202F, U+205F, U+3000); \<^verbatim>\<open>substring(0, n)\<close>
  takes code units. \<^verbatim>\<open>toLowerCase\<close> is given on the letters of ASCII and Latin-1; the
  other cased letters of Unicode are left as they are.
\<close>

type_synonym js_string = "nat list"

definition utf16 :: "string \<Rightarrow> js_string" where
  "utf16 s = map of_char s"

definition is_space :: "nat \<Rightarrow> bool" where
  "is_space u \<longleftrightarrow>
     u \<in> {0x09, 0x0A, 0x0B, 0x0C, 0x0D, 0x20, 0xA0, 0x1680, 0x2028, 0x2029, 0x202F, 0x205F,
          0x3000, 0xFEFF}
     \<or> (0x2000 \<le> u \<and> u \<le> 0x200A)"

definition trim :: "js_string \<Rightarrow> js_string" where
  "trim s = rev (dropWhile is_space (rev (dropWhile is_space s)))"

definition toLowerCase :: "js_string \<Rightarrow> js_string" where
  "toLowerCase s =
     map (\<lambda>u. if (0x41 \<le> u \<and> u \<le> 0x5A) \<or> (0xC0 \<le> u \<and> u \<le> 0xDE \<and> u \<noteq> 0xD7)
              then u + 0x20 else u) s"

definition substring :: "js_string \<Rightarrow> nat \<Rightarrow> nat \<Rightarrow> js_string" where
  "substring s a b = take (max a b - min a b) (drop (min a b) s)"

text \<open>
  The store keeps text in UTF-8 and counts the length of a VARCHAR in characters (code
  points): a surrogate pair is one character. A parameter that holds the code unit 0, or
  a surrogate that is not part of a pair, is refused when the statement is sent.
\<close>

definition is_high :: "nat \<Rightarrow> bool" where
  "is_high u \<longleftrightarrow> 0xD800 \<le> u \<and> u \<le> 0xDBFF"

definition is_low :: "nat \<Rightarrow> bool" where
  "is_low u \<longleftrightarrow> 0xDC00 \<le> u \<and> u \<le> 0xDFFF"

fun chars :: "js_string \<Rightarrow> js_string list" where
  "chars [] = []"
| "chars [u] = [[u]]"
| "chars (u # v # s) = (if is_high u \<and> is_low v then [u, v] # chars s else [u] # chars (v # s))"

definition char_length :: "js_string \<Rightarrow> nat" where
  "char_length s = length (chars s)"

definition sendable :: "js_string \<Rightarrow> bool" where
  "sendable s \<longleftrightarrow> 0 \<notin> set s \<and> (\<forall>c \<in> set (chars s). length c = 2 \<or> \<not> is_high (hd c) \<and> \<not> is_low (hd c))"

subsection \<open>Rows (the interfaces of db.ts)\<close>

text \<open>
  Ids are the INTEGER values of the SERIAL columns, timestamps are the values of
  CURRENT_TIMESTAMP as a count of clock ticks. The three interfaces share the field names
  \<^verbatim>\<open>id\<close> and \<^verbatim>\<open>created_at\<close>; the records prefix them with the first letter of
  the relation.
\<close>

datatype role = user | assistant

record User =
  u_id :: int
  username :: js_string
  u_created_at :: nat

record Session =
  s_id :: int
  user_id :: int
  title :: js_string
  s_created_at :: nat

record Message =
  m_id :: int
  session_id :: int
  role :: role
  content :: js_string
  m_created_at :: nat

subsection \<open>The store (the schema of initDatabase)\<close>

text \<open>
  A relation is the list of its rows in the order of insertion. Each SERIAL column has its
  sequence, holding the last value it handed out. The constraints of the schema (UNIQUE
  on \<^verbatim>\<open>users.username\<close>, the two REFERENCES ... ON DELETE CASCADE, the VARCHAR
  lengths, the range of INTEGER) are part of the statements below.
\<close>

record db =
  users :: "User list"
  sessions :: "Session list"
  messages :: "Message list"
  users_id_seq :: int
  sessions_id_seq :: int
  messages_id_seq :: int

definition empty_db :: db where
  "empty_db = \<lparr>users = [], sessions = [], messages = [],
     users_id_seq = 0, sessions_id_seq = 0, messages_id_seq = 0\<rparr>"

datatype error =
    ConnectionFailure
  | CharacterNotInRepertoire
  | NumericValueOutOfRange
  | StringDataRightTruncation
  | SequenceGeneratorLimitExceeded
  | UniqueViolation
  | ForeignKeyViolation
  | ProviderFailure

text \<open>An id parameter must be a value of INTEGER (32 bits, signed).\<close>

definition in_int4 :: "int \<Rightarrow> bool" where
  "in_int4 i \<longleftrightarrow> - 2147483648 \<le> i \<and> i \<le> 2147483647"

text \<open>
  Assignment to a VARCHAR(n) column: a value of at most \<open>n\<close> characters is stored
  as it is; a longer one is cut to \<open>n\<close> characters when what is cut off is spaces
  only, and refused otherwise.
\<close>

definition varchar :: "nat \<Rightarrow> js_string \<Rightarrow> error + js_string" where
  "varchar n s =
     (if char_length s \<le> n then Inr s
      else if \<forall>u \<in> set (concat (drop n (chars s))). u = 0x20 then Inr (concat (take n (chars s)))
      else Inl StringDataRightTruncation)"

subsection \<open>What the outside does during one request\<close>

text \<open>
  A request makes its SQL calls one after the other; the \<open>k\<close>-th of them (from 0)
  reaches the store or not (\<open>reachable\<close>), and sees the store's clock at
  \<open>clock k\<close>. SQL leaves the order of rows with equal sort keys to the store:
  \<open>tie\<close> ranks the rows (by id) in the order the store's executor happens to deliver
  them. \<open>generateText\<close> is the provider call of the \<^verbatim>\<open>ai\<close> package: the text, or
  \<open>None\<close> when the call throws.
\<close>

datatype prompt_role = system | of_role role

type_synonym prompt = "(prompt_role \<times> js_string) list"

record env =
  reachable :: "nat \<Rightarrow> bool"
  clock :: "nat \<Rightarrow> nat"
  tie :: "int \<Rightarrow> nat"
  generateText :: "prompt \<Rightarrow> js_string option"

subsection \<open>The SQL statements of db.ts\<close>

text \<open>
  \<open>sql e k stmt\<close> is the \<open>k\<close>-th \<^verbatim>\<open>await sql`...`\<close> of a request: the statement
  runs atomically, or the call is rejected and the store is as before. In a statement
  the parameters are checked first (nothing is drawn from a sequence when one is
  refused), then the values for the columns, then the sequence, then the constraints.
\<close>

definition sql :: "env \<Rightarrow> nat \<Rightarrow> (db \<Rightarrow> (error + 'a) \<times> db) \<Rightarrow> db \<Rightarrow> (error + 'a) \<times> db" where
  "sql e k stmt d = (if reachable e k then stmt d else (Inl ConnectionFailure, d))"

text \<open>\<^verbatim>\<open>SELECT id, username, created_at FROM users WHERE username = ${username}\<close>\<close>

definition select_users :: "js_string \<Rightarrow> db \<Rightarrow> (error + User list) \<times> db" where
  "select_users name d =
     (if \<not> sendable name then (Inl CharacterNotInRepertoire, d)
      else (Inr (filter (\<lambda>u. username u = name) (users d)), d))"

text \<open>
  \<^verbatim>\<open>INSERT INTO users (username) VALUES (${username}) RETURNING ...\<close>: the value for
  VARCHAR(50), the id from the sequence (a draw is never undone), the UNIQUE constraint.
\<close>

definition insert_users :: "nat \<Rightarrow> js_string \<Rightarrow> db \<Rightarrow> (error + User) \<times> db" where
  "insert_users now name d =
     (if \<not> sendable name then (Inl CharacterNotInRepertoire, d)
      else case varchar 50 name of
        Inl err \<Rightarrow> (Inl err, d)
      | Inr stored \<Rightarrow>
          if users_id_seq d \<ge> 2147483647 then (Inl SequenceGeneratorLimitExceeded, d)
          else
            let i = users_id_seq d + 1;
                d1 = d\<lparr>users_id_seq := i\<rparr>;
                row = \<lparr>u_id = i, username = stored, u_created_at = now\<rparr>
            in if stored \<in> username ` set (users d) then (Inl UniqueViolation, d1)
               else (Inr row, d1\<lparr>users := users d @ [row]\<rparr>))"

text \<open>\<^verbatim>\<open>INSERT INTO sessions (user_id, title) VALUES (${userId}, ${title}) RETURNING ...\<close>\<close>

definition insert_sessions :: "nat \<Rightarrow> int \<Rightarrow> js_string \<Rightarrow> db \<Rightarrow> (error + Session) \<times> db" where
  "insert_sessions now userId t d =
     (if \<not> in_int4 userId then (Inl NumericValueOutOfRange, d)
      else if \<not> sendable t then (Inl CharacterNotInRepertoire, d)
      else case varchar 100 t of
        Inl err \<Rightarrow> (Inl err, d)
      | Inr stored \<Rightarrow>
          if sessions_id_seq d \<ge> 2147483647 then (Inl SequenceGeneratorLimitExceeded, d)
          else
            let i = sessions_id_seq d + 1;
                d1 = d\<lparr>sessions_id_seq := i\<rparr>;
                row = \<lparr>s_id = i, user_id = userId, title = stored, s_created_at = now\<rparr>
            in if userId \<in> u_id ` set (users d) then (Inr row, d1\<lparr>sessions := sessions d @ [row]\<rparr>)
               else (Inl ForeignKeyViolation, d1))"

text \<open>
  \<^verbatim>\<open>SELECT ... FROM sessions WHERE user_id = ${userId} ORDER BY created_at DESC\<close>:
  descending in \<^verbatim>\<open>created_at\<close>, rows of equal \<^verbatim>\<open>created_at\<close> as the store delivers
  them.
\<close>

definition select_sessions :: "(int \<Rightarrow> nat) \<Rightarrow> int \<Rightarrow> db \<Rightarrow> (error + Session list) \<times> db" where
  "select_sessions rank userId d =
     (if \<not> in_int4 userId then (Inl NumericValueOutOfRange, d)
      else (Inr (rev (sort_key (\<lambda>s. (s_created_at s, rank (s_id s)))
                       (filter (\<lambda>s. user_id s = userId) (sessions d)))), d))"

text \<open>\<^verbatim>\<open>UPDATE sessions SET title = ${title} WHERE id = ${sessionId}\<close>\<close>

definition update_sessions :: "int \<Rightarrow> js_string \<Rightarrow> db \<Rightarrow> (error + unit) \<times> db" where
  "update_sessions sessionId t d =
     (if \<not> sendable t then (Inl CharacterNotInRepertoire, d)
      else if \<not> in_int4 sessionId then (Inl NumericValueOutOfRange, d)
      else case varchar 100 t of
        Inl err \<Rightarrow> (Inl err, d)
      | Inr stored \<Rightarrow>
          (Inr (), d\<lparr>sessions := map (\<lambda>s. if s_id s = sessionId then s\<lparr>title := stored\<rparr> else s)
                                    (sessions d)\<rparr>))"

text \<open>
  \<^verbatim>\<open>DELETE FROM sessions WHERE id = ${sessionId}\<close>. The messages that reference a
  deleted session go with it (\<^verbatim>\<open>session_id ... REFERENCES sessions(id) ON DELETE CASCADE\<close>),
  in the same statement.
\<close>

definition delete_sessions :: "int \<Rightarrow> db \<Rightarrow> (error + unit) \<times> db" where
  "delete_sessions sessionId d =
     (if \<not> in_int4 sessionId then (Inl NumericValueOutOfRange, d)
      else
        let gone = filter (\<lambda>s. s_id s = sessionId) (sessions d)
        in (Inr (), d\<lparr>sessions := filter (\<lambda>s. s_id s \<noteq> sessionId) (sessions d),
                       messages := filter (\<lambda>m. session_id m \<notin> s_id ` set gone) (messages d)\<rparr>))"

text \<open>
  \<^verbatim>\<open>INSERT INTO messages (session_id, role, content) VALUES (...) RETURNING ...\<close>.
  The two roles fit VARCHAR(20) and \<^verbatim>\<open>content\<close> is TEXT; the id is drawn before the
  reference to the session is checked.
\<close>

definition insert_messages :: "nat \<Rightarrow> int \<Rightarrow> role \<Rightarrow> js_string \<Rightarrow> db \<Rightarrow> (error + Message) \<times> db" where
  "insert_messages now sessionId r c d =
     (if \<not> in_int4 sessionId then (Inl NumericValueOutOfRange, d)
      else if \<not> sendable c then (Inl CharacterNotInRepertoire, d)
      else if messages_id_seq d \<ge> 2147483647 then (Inl SequenceGeneratorLimitExceeded, d)
      else
        let i = messages_id_seq d + 1;
            d1 = d\<lparr>messages_id_seq := i\<rparr>;
            row = \<lparr>m_id = i, session_id = sessionId, role = r, content = c, m_created_at = now\<rparr>
        in if sessionId \<in> s_id ` set (sessions d) then (Inr row, d1\<lparr>messages := messages d @ [row]\<rparr>)
           else (Inl ForeignKeyViolation, d1))"

text \<open>
  \<^verbatim>\<open>SELECT ... FROM messages WHERE session_id = ${sessionId} ORDER BY created_at ASC\<close>:
  the only sort key is \<^verbatim>\<open>created_at\<close>; rows that agree on it come in the order in which
  the store delivers them.
\<close>

definition order_by_created_at :: "(int \<Rightarrow> nat) \<Rightarrow> Message list \<Rightarrow> Message list" where
  "order_by_created_at rank rows = sort_key (\<lambda>m. (m_created_at m, rank (m_id m))) rows"

definition of_session :: "int \<Rightarrow> db \<Rightarrow> Message list" where
  "of_session sessionId d = filter (\<lambda>m. session_id m = sessionId) (messages d)"

definition select_messages :: "(int \<Rightarrow> nat) \<Rightarrow> int \<Rightarrow> db \<Rightarrow> (error + Message list) \<times> db" where
  "select_messages rank sessionId d =
     (if \<not> in_int4 sessionId then (Inl NumericValueOutOfRange, d)
      else (Inr (order_by_created_at rank (of_session sessionId d)), d))"

text \<open>\<^verbatim>\<open>DELETE FROM messages WHERE session_id = ${sessionId}\<close>\<close>

definition delete_messages :: "int \<Rightarrow> db \<Rightarrow> (error + unit) \<times> db" where
  "delete_messages sessionId d =
     (if \<not> in_int4 sessionId then (Inl NumericValueOutOfRange, d)
      else (Inr (), d\<lparr>messages := filter (\<lambda>m. session_id m \<noteq> sessionId) (messages d)\<rparr>))"

subsection \<open>The repository functions of db.ts\<close>

text \<open>Each takes the request's environment and the index of its first SQL call.\<close>

definition getOrCreateUser :: "env \<Rightarrow> nat \<Rightarrow> js_string \<Rightarrow> db \<Rightarrow> (error + User) \<times> db" where
  "getOrCreateUser e k name d =
     (case sql e k (select_users name) d of
        (Inl err, d1) \<Rightarrow> (Inl err, d1)
      | (Inr [], d1) \<Rightarrow> sql e (k + 1) (insert_users (clock e (k + 1)) name) d1
      | (Inr (row # _), d1) \<Rightarrow> (Inr row, d1))"

definition createSession :: "env \<Rightarrow> nat \<Rightarrow> int \<Rightarrow> js_string \<Rightarrow> db \<Rightarrow> (error + Session) \<times> db" where
  "createSession e k userId t d = sql e k (insert_sessions (clock e k) userId t) d"

definition getUserSessions :: "env \<Rightarrow> nat \<Rightarrow> int \<Rightarrow> db \<Rightarrow> (error + Session list) \<times> db" where
  "getUserSessions e k userId d = sql e k (select_sessions (tie e) userId) d"

definition updateSessionTitle :: "env \<Rightarrow> nat \<Rightarrow> int \<Rightarrow> js_string \<Rightarrow> db \<Rightarrow> (error + unit) \<times> db" where
  "updateSessionTitle e k sessionId t d = sql e k (update_sessions sessionId t) d"

definition deleteSession :: "env \<Rightarrow> nat \<Rightarrow> int \<Rightarrow> db \<Rightarrow> (error + unit) \<times> db" where
  "deleteSession e k sessionId d = sql e k (delete_sessions sessionId) d"

definition saveMessage :: "env \<Rightarrow> nat \<Rightarrow> int \<Rightarrow> role \<Rightarrow> js_string \<Rightarrow> db \<Rightarrow> (error + Message) \<times> db" where
  "saveMessage e k sessionId r c d = sql e k (insert_messages (clock e k) sessionId r c) d"

definition getSessionMessages :: "env \<Rightarrow> nat \<Rightarrow> int \<Rightarrow> db \<Rightarrow> (error + Message list) \<times> db" where
  "getSessionMessages e k sessionId d = sql e k (select_messages (tie e) sessionId) d"

definition clearSessionMessages :: "env \<Rightarrow> nat \<Rightarrow> int \<Rightarrow> db \<Rightarrow> (error + unit) \<times> db" where
  "clearSessionMessages e k sessionId d = sql e k (delete_messages sessionId) d"

subsection \<open>The provider wrapper (ai.ts)\<close>

text \<open>
  The world of a chat turn is the store and the list of prompts handed to
  \<open>generateText\<close> so far.
\<close>

record world =
  store :: db
  prompts :: "prompt list"

definition system_prompt :: js_string where
  "system_prompt = utf16 ''You are a helpful, friendly AI assistant. Keep responses concise.''"

definition generateAIResponse :: "env \<Rightarrow> js_string \<Rightarrow> Message list \<Rightarrow> prompt list \<Rightarrow> (error + js_string) \<times> prompt list" where
  "generateAIResponse e userMessage history sent =
     (let msgs = [(system, system_prompt)]
                 @ map (\<lambda>msg. (of_role (role msg), content msg)) history
                 @ [(of_role user, userMessage)]
      in case generateText e msgs of
           None \<Rightarrow> (Inl ProviderFailure, sent @ [msgs])
         | Some reply \<Rightarrow> (Inr reply, sent @ [msgs]))"

subsection \<open>The request handlers of index.ts\<close>

text \<open>
  Every handler answers with the envelope \<^verbatim>\<open>{success: true, ...}\<close> or
  \<^verbatim>\<open>{success: false, error}\<close>. A field of the request body is absent (\<open>None\<close>) or a
  string; an id is an integer (\<^verbatim>\<open>parseInt\<close> of the route parameter, or the number of
  the body).
\<close>

datatype 'a envelope = Success 'a | Failure string

text \<open>\<^verbatim>\<open>app.post('/api/auth/login')\<close>\<close>

definition login :: "env \<Rightarrow> db \<Rightarrow> js_string option \<Rightarrow> User envelope \<times> db" where
  "login e d body_username =
     (case body_username of
        None \<Rightarrow> (Failure ''Username must be at least 2 characters'', d)
      | Some name \<Rightarrow>
          if name = [] \<or> length (trim name) < 2
          then (Failure ''Username must be at least 2 characters'', d)
          else (case getOrCreateUser e 0 (toLowerCase (trim name)) d of
                  (Inl err, d1) \<Rightarrow> (Failure ''Failed to login'', d1)
                | (Inr row, d1) \<Rightarrow> (Success row, d1)))"

text \<open>\<^verbatim>\<open>app.post('/api/sessions')\<close>: \<^verbatim>\<open>title || 'New Chat'\<close>\<close>

definition post_sessions :: "env \<Rightarrow> db \<Rightarrow> int \<Rightarrow> js_string option \<Rightarrow> Session envelope \<times> db" where
  "post_sessions e d userId body_title =
     (let t = (case body_title of None \<Rightarrow> utf16 ''New Chat''
               | Some s \<Rightarrow> if s = [] then utf16 ''New Chat'' else s)
      in case createSession e 0 userId t d of
           (Inl err, d1) \<Rightarrow> (Failure ''Failed to create session'', d1)
         | (Inr row, d1) \<Rightarrow> (Success row, d1))"

text \<open>\<^verbatim>\<open>app.post('/api/sessions/:sessionId/chat')\<close>\<close>

definition chat :: "env \<Rightarrow> world \<Rightarrow> int \<Rightarrow> js_string option \<Rightarrow> Message envelope \<times> world" where
  "chat e w sessionId body_message =
     (case body_message of
        None \<Rightarrow> (Failure ''Message cannot be empty'', w)
      | Some message \<Rightarrow>
          if trim message = [] then (Failure ''Message cannot be empty'', w)
          else
            (case saveMessage e 0 sessionId user message (store w) of
               (Inl err, d1) \<Rightarrow> (Failure ''Failed to process message'', w\<lparr>store := d1\<rparr>)
             | (Inr _, d1) \<Rightarrow>
                 (case getSessionMessages e 1 sessionId d1 of
                    (Inl err, d2) \<Rightarrow> (Failure ''Failed to process message'', w\<lparr>store := d2\<rparr>)
                  | (Inr history, d2) \<Rightarrow>
                      (case generateAIResponse e message (butlast history) (prompts w) of
                         (Inl err, sent) \<Rightarrow>
                           (Failure ''Failed to process message'', \<lparr>store = d2, prompts = sent\<rparr>)
                       | (Inr aiResponse, sent) \<Rightarrow>
                           (case saveMessage e 2 sessionId assistant aiResponse d2 of
                              (Inl err, d3) \<Rightarrow>
                                (Failure ''Failed to process message'', \<lparr>store = d3, prompts = sent\<rparr>)
                            | (Inr savedResponse, d3) \<Rightarrow>
                                if length history \<le> 1
                                then (case updateSessionTitle e 3 sessionId (substring message 0 50) d3 of
                                        (Inl err, d4) \<Rightarrow>
                                          (Failure ''Failed to process message'', \<lparr>store = d4, prompts = sent\<rparr>)
                                      | (Inr _, d4) \<Rightarrow>
                                          (Success savedResponse, \<lparr>store = d4, prompts = sent\<rparr>))
                                else (Success savedResponse, \<lparr>store = d3, prompts = sent\<rparr>))))))"

subsection \<open>Integrity of the store, and sample requests\<close>

text \<open>
  The two REFERENCES constraints, as a property of a store: every session belongs to a
  user of the store and every message to a session of the store. The empty store has it
  and every statement keeps it (lemmas \<open>referential_...\<close> below).
\<close>

definition referential :: "db \<Rightarrow> bool" where
  "referential d \<longleftrightarrow>
     (\<forall>s \<in> set (sessions d). user_id s \<in> u_id ` set (users d)) \<and>
     (\<forall>m \<in> set (messages d). session_id m \<in> s_id ` set (sessions d))"

text \<open>
  Sample environments: everything works; the same, later on the clock; the store is lost
  before the fourth SQL call; the provider throws; the clock stands still and the store
  delivers the newer of two rows first; the clock is at the creation time of the latest
  stored message and the store delivers the row with id 3 first among equals.
\<close>

definition demo_env :: env where
  "demo_env = \<lparr>reachable = (\<lambda>k. True), clock = (\<lambda>k. 100 + k), tie = (\<lambda>i. 0),
     generateText = (\<lambda>p. Some (utf16 ''Hi!''))\<rparr>"

definition later_env :: env where
  "later_env = \<lparr>reachable = (\<lambda>k. True), clock = (\<lambda>k. 200 + k), tie = (\<lambda>i. 0),
     generateText = (\<lambda>p. Some (utf16 ''Fine.''))\<rparr>"

definition rename_down_env :: env where
  "rename_down_env = \<lparr>reachable = (\<lambda>k. k < 3), clock = (\<lambda>k. 100 + k), tie = (\<lambda>i. 0),
     generateText = (\<lambda>p. Some (utf16 ''Hi!''))\<rparr>"

definition provider_down_env :: env where
  "provider_down_env = \<lparr>reachable = (\<lambda>k. True), clock = (\<lambda>k. 100 + k), tie = (\<lambda>i. 0),
     generateText = (\<lambda>p. None)\<rparr>"

definition tied_env :: env where
  "tied_env = \<lparr>reachable = (\<lambda>k. True), clock = (\<lambda>k. 7), tie = (\<lambda>i. if i = 1 then 1 else 0),
     generateText = (\<lambda>p. None)\<rparr>"

definition same_tick_env :: env where
  "same_tick_env = \<lparr>reachable = (\<lambda>k. True), clock = (\<lambda>k. 102), tie = (\<lambda>i. if i = 3 then 0 else 1),
     generateText = (\<lambda>p. Some (utf16 ''Fine.''))\<rparr>"

text \<open>
  Sample stores: one user with one new session; the same after the turn \<open>Hello\<close>;
  the first after two appends to session 1 at the same clock value. A sample title: one
  hundred letters \<open>a\<close> and a space.
\<close>

definition demo_db :: db where
  "demo_db = \<lparr>users = [\<lparr>u_id = 1, username = utf16 ''ada'', u_created_at = 10\<rparr>],
     sessions = [\<lparr>s_id = 1, user_id = 1, title = utf16 ''New Chat'', s_created_at = 20\<rparr>],
     messages = [], users_id_seq = 1, sessions_id_seq = 1, messages_id_seq = 0\<rparr>"

definition demo_world :: world where
  "demo_world = \<lparr>store = demo_db, prompts = []\<rparr>"

definition demo_world1 :: world where
  "demo_world1 =
     \<lparr>store = \<lparr>users = [\<lparr>u_id = 1, username = utf16 ''ada'', u_created_at = 10\<rparr>],
        sessions = [\<lparr>s_id = 1, user_id = 1, title = utf16 ''Hello'', s_created_at = 20\<rparr>],
        messages = [\<lparr>m_id = 1, session_id = 1, role = user, content = utf16 ''Hello'',
                      m_created_at = 100\<rparr>,
                    \<lparr>m_id = 2, session_id = 1, role = assistant, content = utf16 ''Hi!'',
                      m_created_at = 102\<rparr>],
        users_id_seq = 1, sessions_id_seq = 1, messages_id_seq = 2\<rparr>,
      prompts = [[(system, system_prompt), (of_role user, utf16 ''Hello'')]]\<rparr>"

definition tied_db :: db where
  "tied_db = snd (saveMessage tied_env 1 1 assistant (utf16 ''second'')
                   (snd (saveMessage tied_env 0 1 user (utf16 ''first'') demo_db)))"

definition long_title :: js_string where
  "long_title = replicate 100 0x61 @ [0x20]"

section \<open>Auxiliary facts\<close>

subsection \<open>Strings\<close>

lemma concat_chars [simp]: "concat (chars s) = s"
  by (induction s rule: chars.induct) auto

lemma chars_nonempty: "c \<in> set (chars s) \<Longrightarrow> c \<noteq> []"
  by (induction s rule: chars.induct) (auto split: if_splits)

lemma length_chars_le: "length (chars s) \<le> length s"
  by (induction s rule: chars.induct) auto

lemma varchar_short: "length s \<le> n \<Longrightarrow> varchar n s = Inr s"
  using length_chars_le [of s] by (simp add: varchar_def char_length_def)

lemma last_in_cut:
  assumes "n < char_length s"
  shows "last s \<in> set (concat (drop n (chars s)))"
proof -
  let ?rest = "drop n (chars s)"
  have split: "s = concat (take n (chars s)) @ concat ?rest"
    by (metis append_take_drop_id concat_append concat_chars)
  from assms have "?rest \<noteq> []"
    by (simp add: char_length_def)
  then obtain c where c: "c \<in> set ?rest"
    by (cases ?rest) auto
  then have "c \<noteq> []"
    using chars_nonempty [of c s] in_set_dropD [of c n "chars s"] by blast
  with c have "concat ?rest \<noteq> []"
    by auto
  then have "last s = last (concat ?rest)"
    using split by (metis last_appendR)
  with \<open>concat ?rest \<noteq> []\<close> show ?thesis
    by (metis last_in_set)
qed

lemma varchar_no_trailing_space:
  assumes "s \<noteq> []" and "last s \<noteq> 0x20" and "varchar n s = Inr stored"
  shows "stored = s"
proof (cases "char_length s \<le> n")
  case True
  with assms(3) show ?thesis by (simp add: varchar_def)
next
  case False
  then have "last s \<in> set (concat (drop n (chars s)))"
    by (intro last_in_cut) simp
  with assms(2) have "\<not> (\<forall>u \<in> set (concat (drop n (chars s))). u = 0x20)"
    by blast
  with False assms(3) show ?thesis
    by (auto simp: varchar_def split: if_splits)
qed

lemma trim_eq_Nil_iff: "trim s = [] \<longleftrightarrow> (\<forall>c \<in> set s. is_space c)"
proof
  assume "trim s = []"
  then have "\<forall>c \<in> set (dropWhile is_space s). is_space c"
    by (simp add: trim_def)
  then have "dropWhile is_space s = []"
    using hd_dropWhile [of is_space s] hd_in_set [of "dropWhile is_space s"] by blast
  then show "\<forall>c \<in> set s. is_space c"
    by simp
next
  assume "\<forall>c \<in> set s. is_space c"
  then show "trim s = []"
    by (auto simp: trim_def dest: set_dropWhileD)
qed

lemma last_trim_not_space:
  assumes "trim s \<noteq> []"
  shows "\<not> is_space (last (trim s))"
proof -
  let ?t = "dropWhile is_space (rev (dropWhile is_space s))"
  from assms have "?t \<noteq> []"
    by (simp add: trim_def)
  then have "\<not> is_space (hd ?t)"
    by (rule hd_dropWhile)
  moreover have "last (trim s) = hd ?t"
    using \<open>?t \<noteq> []\<close> by (simp add: trim_def last_rev)
  ultimately show ?thesis by simp
qed

lemma last_toLowerCase_not_space:
  assumes "t \<noteq> []" and "\<not> is_space (last t)"
  shows "toLowerCase t \<noteq> [] \<and> last (toLowerCase t) \<noteq> 0x20"
proof -
  have "last t \<noteq> 0x20"
    using assms(2) by (auto simp: is_space_def)
  with assms(1) show ?thesis
    by (auto simp: toLowerCase_def last_map)
qed

lemma normalised_name:
  assumes "trim name \<noteq> []"
  shows "toLowerCase (trim name) \<noteq> [] \<and> last (toLowerCase (trim name)) \<noteq> 0x20"
  using assms last_trim_not_space last_toLowerCase_not_space by blast

lemma take_utf16: "take n (utf16 s) = utf16 (take n s)"
  by (simp add: utf16_def take_map)

lemma varchar_take_50 [simp]: "varchar 100 (take 50 s) = Inr (take 50 s)"
  by (rule varchar_short) simp

lemma chars_no_high: "\<forall>u \<in> set s. \<not> is_high u \<Longrightarrow> chars s = map (\<lambda>u. [u]) s"
  by (induction s rule: chars.induct) auto

lemma not_surrogate_of_char: "\<not> is_high (of_char c) \<and> \<not> is_low (of_char c)"
proof -
  have "(of_char c :: nat) < 256"
    by (rule nat_of_char_less_256)
  then show ?thesis
    unfolding is_high_def is_low_def by linarith
qed

lemma chars_utf16: "chars (utf16 s) = map (\<lambda>u. [u]) (utf16 s)"
  by (rule chars_no_high) (auto simp: utf16_def not_surrogate_of_char)

lemma of_char_eq_0: "(of_char c = (0::nat)) = (c = CHR 0x00)"
proof -
  have "of_char (CHR 0x00) = (0::nat)"
    by simp
  then show ?thesis
    by (metis of_char_eq_iff)
qed

lemma zero_in_utf16: "0 \<in> set (utf16 s) \<longleftrightarrow> CHR 0x00 \<in> set s"
proof -
  have "0 \<in> set (utf16 s) \<longleftrightarrow> (\<exists>c \<in> set s. of_char c = (0::nat))"
    unfolding utf16_def set_map image_iff by metis
  then show ?thesis
    unfolding of_char_eq_0 by blast
qed

lemma sendable_utf16: "sendable (utf16 s) \<longleftrightarrow> CHR 0x00 \<notin> set s"
proof -
  have "length c = 2 \<or> \<not> is_high (hd c) \<and> \<not> is_low (hd c)" if "c \<in> set (chars (utf16 s))" for c
  proof -
    from that have "c \<in> set (map (\<lambda>u. [u]) (utf16 s))"
      by (simp only: chars_utf16)
    then obtain x where "c = [of_char x]"
      by (auto simp: utf16_def)
    then show ?thesis
      by (simp add: not_surrogate_of_char)
  qed
  then show ?thesis
    unfolding sendable_def zero_in_utf16 by blast
qed

lemma char_length_utf16: "char_length (utf16 s) = length s"
  by (simp add: char_length_def chars_utf16) (simp add: utf16_def)

lemma varchar_utf16: "length s \<le> n \<Longrightarrow> varchar n (utf16 s) = Inr (utf16 s)"
  by (rule varchar_short) (simp add: utf16_def)

lemma utf16_eq_Nil [simp]: "utf16 s = [] \<longleftrightarrow> s = []"
  by (simp add: utf16_def)

lemma in_int4_1: "in_int4 1" and in_int4_99: "in_int4 99" and in_int4_42: "in_int4 42"
  by (simp_all add: in_int4_def)

lemma trim_Hello: "trim (utf16 ''Hello'') = utf16 ''Hello''"
  by (simp add: trim_def is_space_def utf16_def)

lemma trim_How: "trim (utf16 ''How are you?'') = utf16 ''How are you?''"
  by (simp add: trim_def is_space_def utf16_def)

subsection \<open>Sorting\<close>

lemma insort_key_before_last:
  "f a < f n \<Longrightarrow> insort_key f a (xs @ [n]) = insort_key f a xs @ [n]"
  for f :: "'a \<Rightarrow> 'k::linorder"
  by (induction xs) auto

lemma sort_key_snoc_greatest:
  "\<forall>x \<in> set xs. f x < f n \<Longrightarrow> sort_key f (xs @ [n]) = sort_key f xs @ [n]"
  for f :: "'a \<Rightarrow> 'k::linorder"
  by (induction xs) (auto simp: insort_key_before_last)

lemma sorted_fst_of_lex:
  "sorted (map (\<lambda>x. (f x, g x)) xs) \<Longrightarrow> sorted (map f xs)"
  for f :: "'a \<Rightarrow> nat" and g :: "'a \<Rightarrow> nat"
  by (induction xs) (auto simp: less_eq_prod_def)

lemma mset_order_by [simp]: "mset (order_by_created_at rank rows) = mset rows"
  by (simp add: order_by_created_at_def)

lemma length_order_by [simp]: "length (order_by_created_at rank rows) = length rows"
  by (simp add: order_by_created_at_def)

lemma set_order_by [simp]: "set (order_by_created_at rank rows) = set rows"
  by (simp add: order_by_created_at_def)

lemma order_by_Nil [simp]: "order_by_created_at rank [] = []"
  by (simp add: order_by_created_at_def)

lemma order_by_single [simp]: "order_by_created_at rank [m] = [m]"
  by (simp add: order_by_created_at_def)

lemma sorted_order_by: "sorted (map m_created_at (order_by_created_at rank rows))"
  unfolding order_by_created_at_def
  by (rule sorted_fst_of_lex [where g = "\<lambda>m. rank (m_id m)"]) (rule sorted_sort_key)

lemma order_by_snoc_latest:
  assumes "\<forall>m \<in> set rows. m_created_at m < m_created_at n"
  shows "order_by_created_at rank (rows @ [n]) = order_by_created_at rank rows @ [n]"
  unfolding order_by_created_at_def
  by (rule sort_key_snoc_greatest) (use assms in \<open>auto simp: less_prod_def\<close>)

subsection \<open>The statements keep the references of the store\<close>

lemma referential_empty_db: "referential empty_db"
  by (simp add: referential_def empty_db_def)

lemma s_id_retitle:
  "s_id ` set (map (\<lambda>s. if s_id s = sessionId then s\<lparr>title := t\<rparr> else s) ss) = s_id ` set ss"
  by (induction ss) auto

lemma referential_getOrCreateUser:
  "referential d \<Longrightarrow> getOrCreateUser e k name d = (r, d') \<Longrightarrow> referential d'"
  by (auto simp: getOrCreateUser_def sql_def select_users_def insert_users_def referential_def Let_def
           split: if_splits list.splits sum.splits)

lemma referential_createSession:
  "referential d \<Longrightarrow> createSession e k userId t d = (r, d') \<Longrightarrow> referential d'"
  by (auto simp: createSession_def sql_def insert_sessions_def referential_def Let_def
           split: if_splits sum.splits)

lemma referential_saveMessage:
  "referential d \<Longrightarrow> saveMessage e k sessionId ro c d = (r, d') \<Longrightarrow> referential d'"
  by (auto simp: saveMessage_def sql_def insert_messages_def referential_def Let_def
           split: if_splits)

lemma referential_getSessionMessages:
  "referential d \<Longrightarrow> getSessionMessages e k sessionId d = (r, d') \<Longrightarrow> referential d'"
  by (auto simp: getSessionMessages_def sql_def select_messages_def split: if_splits)

lemma referential_clearSessionMessages:
  "referential d \<Longrightarrow> clearSessionMessages e k sessionId d = (r, d') \<Longrightarrow> referential d'"
  by (auto simp: clearSessionMessages_def sql_def delete_messages_def referential_def
           split: if_splits)

lemma referential_updateSessionTitle:
  assumes "referential d" and "updateSessionTitle e k sessionId t d = (r, d')"
  shows "referential d'"
proof (cases r)
  case (Inl err)
  with assms show ?thesis
    by (auto simp: updateSessionTitle_def sql_def update_sessions_def split: if_splits sum.splits)
next
  case (Inr u)
  with assms(2) obtain stored
    where d': "d' = d\<lparr>sessions := map (\<lambda>s. if s_id s = sessionId then s\<lparr>title := stored\<rparr> else s) (sessions d)\<rparr>"
    by (auto simp: updateSessionTitle_def sql_def update_sessions_def split: if_splits sum.splits)
  let ?f = "\<lambda>s. if s_id s = sessionId then s\<lparr>title := stored\<rparr> else s"
  have "\<forall>s \<in> set (map ?f (sessions d)). user_id s \<in> u_id ` set (users d)"
    using assms(1) by (auto simp: referential_def)
  moreover have "\<forall>m \<in> set (messages d). session_id m \<in> s_id ` set (map ?f (sessions d))"
    using assms(1) unfolding s_id_retitle by (simp add: referential_def)
  ultimately show ?thesis
    unfolding referential_def d' by simp
qed

lemma referential_deleteSession:
  assumes "referential d" and "deleteSession e k sessionId d = (r, d')"
  shows "referential d'"
proof (cases r)
  case (Inl err)
  with assms show ?thesis
    by (auto simp: deleteSession_def sql_def delete_sessions_def Let_def split: if_splits)
next
  case (Inr u)
  with assms(2) have d': "sessions d' = filter (\<lambda>s. s_id s \<noteq> sessionId) (sessions d)"
      "messages d' = filter (\<lambda>m. session_id m \<notin> s_id ` set (filter (\<lambda>s. s_id s = sessionId) (sessions d))) (messages d)"
      "users d' = users d"
    by (auto simp: deleteSession_def sql_def delete_sessions_def Let_def split: if_splits)
  have "session_id m \<in> s_id ` set (sessions d')" if "m \<in> set (messages d')" for m
  proof -
    from that have m: "m \<in> set (messages d)"
      and keep: "session_id m \<notin> s_id ` set (filter (\<lambda>s. s_id s = sessionId) (sessions d))"
      by (simp_all add: d')
    from m assms(1) obtain s where s: "s \<in> set (sessions d)" "s_id s = session_id m"
      by (auto simp: referential_def)
    with keep have "s_id s \<noteq> sessionId" by auto
    with s show ?thesis by (force simp: d')
  qed
  moreover have "\<forall>s \<in> set (sessions d'). user_id s \<in> u_id ` set (users d')"
    using assms(1) by (auto simp: referential_def d')
  ultimately show ?thesis
    by (simp add: referential_def)
qed

lemma referential_login:
  "referential d \<Longrightarrow> login e d body_username = (r, d') \<Longrightarrow> referential d'"
  by (auto simp: login_def split: option.splits if_splits prod.splits sum.splits
           intro: referential_getOrCreateUser)

lemma referential_post_sessions:
  "referential d \<Longrightarrow> post_sessions e d userId body_title = (r, d') \<Longrightarrow> referential d'"
  by (auto simp: post_sessions_def Let_def split: prod.splits sum.splits
           intro: referential_createSession)

lemma referential_chat:
  assumes "referential (store w)" and "chat e w sessionId body_message = (r, w')"
  shows "referential (store w')"
proof (cases body_message)
  case None
  with assms show ?thesis by (simp add: chat_def)
next
  case (Some message)
  obtain r1 d1 where 1: "saveMessage e 0 sessionId user message (store w) = (r1, d1)"
    by force
  obtain r2 d2 where 2: "getSessionMessages e 1 sessionId d1 = (r2, d2)"
    by force
  have i1: "referential d1"
    by (rule referential_saveMessage [OF assms(1) 1])
  have i2: "referential d2"
    by (rule referential_getSessionMessages [OF i1 2])
  have i3: "referential d3" if "saveMessage e 2 sessionId assistant a d2 = (r3, d3)" for a r3 d3
    by (rule referential_saveMessage [OF i2 that])
  have i4: "referential d4"
    if "saveMessage e 2 sessionId assistant a d2 = (r3, d3)"
      and "updateSessionTitle e 3 sessionId t d3 = (r4, d4)" for a r3 d3 t r4 d4
    by (rule referential_updateSessionTitle [OF i3 [OF that(1)] that(2)])
  show ?thesis
    using assms Some 1 2 i1 i2
    by (auto simp: chat_def generateAIResponse_def
             split: if_splits sum.splits prod.splits option.splits
             intro: i3 i4)
qed

subsection \<open>The sample requests, evaluated\<close>

lemmas chat_defs = chat_def saveMessage_def getSessionMessages_def updateSessionTitle_def sql_def
  insert_messages_def select_messages_def update_sessions_def generateAIResponse_def substring_def

lemmas demo_defs = demo_env_def later_env_def rename_down_env_def provider_down_env_def tied_env_def
  same_tick_env_def demo_db_def demo_world_def demo_world1_def

lemmas sample_facts = sendable_utf16 varchar_utf16 take_utf16 in_int4_1 in_int4_99 in_int4_42

lemma referential_demo_db: "referential demo_db"
  by (simp add: referential_def demo_db_def)

lemma referential_demo_world1: "referential (store demo_world1)"
  by (simp add: referential_def demo_world1_def)


lemma provider_down_turn:
  "chat provider_down_env demo_world 1 (Some (utf16 ''Hello'')) =
     (Failure ''Failed to process message'',
      \<lparr>store = demo_db\<lparr>messages_id_seq := 1,
           messages := [\<lparr>m_id = 1, session_id = 1, role = user, content = utf16 ''Hello'', m_created_at = 100\<rparr>]\<rparr>,
       prompts = [[(system, system_prompt), (of_role user, utf16 ''Hello'')]]\<rparr>)"
  by (simp add: chat_defs of_session_def order_by_created_at_def demo_defs trim_Hello sample_facts Let_def)

lemma stored_first_turn:
  "getSessionMessages demo_env 0 1 (store demo_world1) =
     (Inr [\<lparr>m_id = 1, session_id = 1, role = user, content = utf16 ''Hello'', m_created_at = 100\<rparr>,
           \<lparr>m_id = 2, session_id = 1, role = assistant, content = utf16 ''Hi!'', m_created_at = 102\<rparr>],
      store demo_world1)"
  by (simp add: getSessionMessages_def sql_def select_messages_def of_session_def
        order_by_created_at_def demo_env_def demo_world1_def sample_facts)

lemma normalised_Ada: "toLowerCase (trim (utf16 ''  Ada '')) = utf16 ''ada''"
  by (simp add: utf16_def trim_def is_space_def toLowerCase_def)

lemma length_trim_Ada: "length (trim (utf16 ''  Ada '')) = 3"
  by (simp add: utf16_def trim_def is_space_def)

lemma first_login:
  "login demo_env empty_db (Some (utf16 ''  Ada '')) =
     (Success \<lparr>u_id = 1, username = utf16 ''ada'', u_created_at = 101\<rparr>,
      empty_db\<lparr>users_id_seq := 1, users := [\<lparr>u_id = 1, username = utf16 ''ada'', u_created_at = 101\<rparr>]\<rparr>)"
  by (simp add: login_def normalised_Ada length_trim_Ada getOrCreateUser_def sql_def select_users_def insert_users_def
        sample_facts demo_env_def empty_db_def Let_def)

lemma tied_db_eq:
  "tied_db = demo_db\<lparr>messages_id_seq := 2,
       messages := [\<lparr>m_id = 1, session_id = 1, role = user, content = utf16 ''first'', m_created_at = 7\<rparr>,
                    \<lparr>m_id = 2, session_id = 1, role = assistant, content = utf16 ''second'', m_created_at = 7\<rparr>]\<rparr>"
  by (simp add: tied_db_def saveMessage_def sql_def insert_messages_def tied_env_def demo_db_def
        sample_facts Let_def)

lemma demo_db_reached:
  "snd (post_sessions (demo_env\<lparr>clock := \<lambda>k. 20\<rparr>)
         (snd (login (demo_env\<lparr>clock := \<lambda>k. 10\<rparr>) empty_db (Some (utf16 ''Ada'')))) 1 None) = demo_db"
proof -
  have "toLowerCase (trim (utf16 ''Ada'')) = utf16 ''ada''"
    by (simp add: utf16_def trim_def is_space_def toLowerCase_def)
  moreover have "length (trim (utf16 ''Ada'')) = 3"
    by (simp add: utf16_def trim_def is_space_def)
  ultimately show ?thesis
    by (simp add: post_sessions_def createSession_def insert_sessions_def login_def
        getOrCreateUser_def sql_def select_users_def insert_users_def sample_facts
        demo_env_def demo_db_def empty_db_def Let_def)
qed

lemma chars_long_title: "chars long_title = replicate 100 [0x61] @ [[0x20]]"
proof -
  have "chars long_title = map (\<lambda>u. [u]) long_title"
    by (rule chars_no_high) (auto simp: long_title_def is_high_def)
  then show ?thesis
    by (simp add: long_title_def)
qed

lemma sendable_long_title: "sendable long_title"
  unfolding sendable_def chars_long_title
  by (auto simp: long_title_def is_high_def is_low_def)

lemma varchar_long_title: "varchar 100 long_title = Inr (replicate 100 0x61)"
proof -
  have "concat (replicate 100 [0x61::nat]) = replicate 100 0x61"
    by (induction "100::nat") (simp_all add: concat_replicate_trivial)
  then show ?thesis
    by (simp add: varchar_def char_length_def chars_long_title)
qed

section \<open>The claims\<close>

subsection \<open>C1: only the first turn retitles the session\<close>



text \<open>The second message of the scenario leaves the title \<open>Hello\<close>.\<close>

lemma second_turn_keeps_title:
  "map title (sessions (store (snd (chat later_env demo_world1 1 (Some (utf16 ''How are you?'')))))) =
     [utf16 ''Hello'']
   \<and> map content (messages (store (snd (chat later_env demo_world1 1 (Some (utf16 ''How are you?'')))))) =
       [utf16 ''Hello'', utf16 ''Hi!'', utf16 ''How are you?'', utf16 ''Fine.'']"
  by (simp add: chat_defs of_session_def order_by_created_at_def demo_defs trim_How sample_facts Let_def)

subsection \<open>C2: a failed rename fails the turn\<close>

text \<open>
  C2, as the specification has it: on a first turn whose steps up to the assistant message
  succeed, a failure of the rename does not fail the turn. The handler awaits
  \<^verbatim>\<open>updateSessionTitle\<close> inside its one \<^verbatim>\<open>try\<close> block, so the rejection reaches the
  \<^verbatim>\<open>catch\<close>: with the store lost before the rename, both messages are stored and the
  answer is the failure envelope.
\<close>

theorem chat_rename_failure_not_swallowed:
  "fst (chat rename_down_env demo_world 1 (Some (utf16 ''Hello''))) = Failure ''Failed to process message''
   \<and> map content (messages (store (snd (chat rename_down_env demo_world 1 (Some (utf16 ''Hello'')))))) =
       [utf16 ''Hello'', utf16 ''Hi!'']"
  by (simp add: chat_defs of_session_def order_by_created_at_def demo_defs trim_Hello sample_facts Let_def)

text \<open>
  C2, amended. Take a first turn (the session had no message) in which the user message
  and the assistant message have both been stored (so the append, the read of the
  history, the provider call and the second append succeeded), and in which the rename
  of the session to the first 50 code units of the message is rejected. Then the turn
  fails: the answer is the failure envelope \<open>Failed to process message\<close> and not the
  stored assistant message.
\<close>

theorem chat_rename_failure_fails_turn:
  assumes "chat e w sessionId (Some message) = (res, w')"
    and "of_session sessionId (store w) = []"
    and "messages (store w') = messages (store w) @ [userRow, savedResponse]"
    and "updateSessionTitle e 3 sessionId (substring message 0 50) (store w') = (Inl err, d)"
  shows "res = Failure ''Failed to process message''"
proof -
  have none_before: "filter (\<lambda>m. session_id m = sessionId) (messages (store w)) = []"
    using assms(2) by (simp add: of_session_def)
  show ?thesis
    using assms(1,3,4)
    by (auto simp: chat_defs of_session_def none_before Let_def split: if_splits option.splits)
qed

theorem chat_rename_failure_fails_turn_witness:
  "chat rename_down_env demo_world 1 (Some (utf16 ''Hello'')) =
     (Failure ''Failed to process message'',
      demo_world1\<lparr>store := (store demo_world1)\<lparr>sessions := sessions demo_db\<rparr>\<rparr>)
   \<and> of_session 1 (store demo_world) = []
   \<and> map content (messages (store demo_world1)) = [utf16 ''Hello'', utf16 ''Hi!'']
   \<and> fst (updateSessionTitle rename_down_env 3 1 (substring (utf16 ''Hello'') 0 50)
            ((store demo_world1)\<lparr>sessions := sessions demo_db\<rparr>)) = Inl ConnectionFailure"
proof -
  let ?w' = "demo_world1\<lparr>store := (store demo_world1)\<lparr>sessions := sessions demo_db\<rparr>\<rparr>"
  have turn: "chat rename_down_env demo_world 1 (Some (utf16 ''Hello'')) =
     (Failure ''Failed to process message'', ?w')"
    by (simp add: chat_defs of_session_def order_by_created_at_def demo_defs trim_Hello sample_facts Let_def)
  have first: "of_session 1 (store demo_world) = []"
    by (simp add: of_session_def demo_defs)
  have stored: "messages (store ?w') = messages (store demo_world) @
      [\<lparr>m_id = 1, session_id = 1, role = user, content = utf16 ''Hello'', m_created_at = 100\<rparr>,
       \<lparr>m_id = 2, session_id = 1, role = assistant, content = utf16 ''Hi!'', m_created_at = 102\<rparr>]"
    by (simp add: demo_defs)
  have rename: "updateSessionTitle rename_down_env 3 1 (substring (utf16 ''Hello'') 0 50) (store ?w') =
      (Inl ConnectionFailure, store ?w')"
    by (simp add: updateSessionTitle_def sql_def rename_down_env_def)
  show ?thesis
    using chat_rename_failure_fails_turn [OF turn first stored rename] turn first rename
    by (simp add: demo_world1_def)
qed

subsection \<open>C3: a blank message changes nothing\<close>

text \<open>
  C3. A chat turn whose message is absent, empty or made of whitespace only (every code
  unit is one that \<^verbatim>\<open>trim\<close> strips) is answered with the failure envelope
  \<open>Message cannot be empty\<close> and leaves the world as it was: the store (no message
  appended, no title changed) and the list of prompts handed to the provider (no provider
  call).
\<close>

theorem chat_blank_message_rejected:
  assumes "case body of None \<Rightarrow> True | Some message \<Rightarrow> \<forall>c \<in> set message. is_space c"
  shows "chat e w sessionId body = (Failure ''Message cannot be empty'', w)"
  using assms
  by (auto simp: chat_def trim_eq_Nil_iff split: option.splits)

text \<open>
  A message of a space, a no-break space, a tab, an ideographic space, a byte order mark
  and a line separator; the empty message; no message.
\<close>

theorem chat_blank_message_rejected_witness:
  "chat demo_env demo_world 1 (Some [0x20, 0xA0, 0x09, 0x3000, 0xFEFF, 0x2028]) =
     (Failure ''Message cannot be empty'', demo_world)
   \<and> chat demo_env demo_world 1 (Some []) = (Failure ''Message cannot be empty'', demo_world)
   \<and> chat demo_env demo_world 1 None = (Failure ''Message cannot be empty'', demo_world)"
  using chat_blank_message_rejected
      [where body = "Some [0x20, 0xA0, 0x09, 0x3000, 0xFEFF, 0x2028]" and e = demo_env and w = demo_world
         and sessionId = 1]
    chat_blank_message_rejected [where body = "Some []" and e = demo_env and w = demo_world and sessionId = 1]
    chat_blank_message_rejected [where body = None and e = demo_env and w = demo_world and sessionId = 1]
  by (simp add: is_space_def)

subsection \<open>C4: a provider failure keeps the user's message\<close>

text \<open>
  C4. In a chat turn whose provider call fails (the prompt \<open>p\<close> handed to
  \<open>generateText\<close> in this turn is answered by a throw), the answer is the failure
  envelope, the user's message is stored as the one new row of the store, no assistant
  message is appended, and sessions and users are as before.
\<close>

theorem chat_provider_failure_keeps_user_message:
  assumes "chat e w sessionId (Some message) = (res, w')"
    and "prompts w' = prompts w @ [p]"
    and "generateText e p = None"
  shows "res = Failure ''Failed to process message''
         \<and> messages (store w') = messages (store w) @
              [\<lparr>m_id = messages_id_seq (store w) + 1, session_id = sessionId, role = user,
                 content = message, m_created_at = clock e 0\<rparr>]
         \<and> sessions (store w') = sessions (store w)
         \<and> users (store w') = users (store w)"
  using assms
  by (auto simp: chat_defs Let_def split: if_splits option.splits)

theorem chat_provider_failure_keeps_user_message_witness:
  "fst (chat provider_down_env demo_world 1 (Some (utf16 ''Hello''))) = Failure ''Failed to process message''
   \<and> map content (messages (store (snd (chat provider_down_env demo_world 1 (Some (utf16 ''Hello'')))))) =
       [utf16 ''Hello'']
   \<and> map title (sessions (store (snd (chat provider_down_env demo_world 1 (Some (utf16 ''Hello'')))))) =
       [utf16 ''New Chat'']"
proof -
  let ?p = "[(system, system_prompt), (of_role user, utf16 ''Hello'')]"
  have thrown: "generateText provider_down_env ?p = None"
    by (simp add: provider_down_env_def)
  show ?thesis
    using chat_provider_failure_keeps_user_message [OF provider_down_turn _ thrown] provider_down_turn
    by (simp add: demo_world_def demo_db_def)
qed

subsection \<open>C5: the history is ordered by creation time only\<close>

text \<open>
  C5, as the specification has it: the messages of a session come in non-decreasing
  creation time, and messages of equal creation time in the order of their ids. The query
  sorts by \<^verbatim>\<open>created_at\<close> alone, so the order of such messages is the store's: after
  two appends to session 1 at the same clock value, a store that delivers the newer row
  first returns id 2 before id 1.
\<close>

theorem getSessionMessages_ties_not_by_id:
  "getSessionMessages tied_env 0 1 tied_db =
     (Inr [\<lparr>m_id = 2, session_id = 1, role = assistant, content = utf16 ''second'', m_created_at = 7\<rparr>,
           \<lparr>m_id = 1, session_id = 1, role = user, content = utf16 ''first'', m_created_at = 7\<rparr>], tied_db)"
  by (simp add: tied_db_eq getSessionMessages_def sql_def select_messages_def of_session_def
        order_by_created_at_def tied_env_def demo_db_def sample_facts)

text \<open>
  C5, amended. On every store (so after every interleaving of appends) and for every
  session id, what \<^verbatim>\<open>getSessionMessages\<close> returns is the messages of that session,
  each once, in non-decreasing creation time, and the store is not changed; the order
  among messages of equal creation time is not fixed by the query.
\<close>

theorem getSessionMessages_sorted_by_created_at:
  assumes "getSessionMessages e k sessionId d = (Inr rows, d')"
  shows "d' = d
         \<and> mset rows = mset (filter (\<lambda>m. session_id m = sessionId) (messages d))
         \<and> sorted (map m_created_at rows)"
  using assms
  by (auto simp: getSessionMessages_def sql_def select_messages_def of_session_def sorted_order_by
           split: if_splits)

theorem getSessionMessages_sorted_by_created_at_witness:
  "getSessionMessages demo_env 0 1 (store demo_world1) =
     (Inr [\<lparr>m_id = 1, session_id = 1, role = user, content = utf16 ''Hello'', m_created_at = 100\<rparr>,
           \<lparr>m_id = 2, session_id = 1, role = assistant, content = utf16 ''Hi!'', m_created_at = 102\<rparr>],
      store demo_world1)
   \<and> sorted [100, 102 :: nat]"
  using getSessionMessages_sorted_by_created_at [OF stored_first_turn] stored_first_turn
  by simp

subsection \<open>C6: deleting a session takes its messages along\<close>

text \<open>
  C6. \<^verbatim>\<open>deleteSession\<close> is one statement. On a store whose references hold it either
  fails and leaves the store as it was, or it succeeds, and then the session is gone
  together with every message of it: no session and no message with that id is left, a
  later \<^verbatim>\<open>getSessionMessages\<close> on the id returns the empty list, and the other
  sessions, the other messages and the users are untouched.
\<close>

theorem deleteSession_cascades:
  assumes "referential d"
  shows "case deleteSession e k sessionId d of
           (Inl err, d') \<Rightarrow> d' = d
         | (Inr _, d') \<Rightarrow>
             sessionId \<notin> s_id ` set (sessions d')
             \<and> (\<forall>m \<in> set (messages d'). session_id m \<noteq> sessionId)
             \<and> getSessionMessages e' k' sessionId d' =
                 (if reachable e' k' then Inr [] else Inl ConnectionFailure, d')
             \<and> sessions d' = filter (\<lambda>s. s_id s \<noteq> sessionId) (sessions d)
             \<and> messages d' = filter (\<lambda>m. session_id m \<noteq> sessionId) (messages d)
             \<and> users d' = users d"
proof (cases "reachable e k \<and> in_int4 sessionId")
  case False
  then show ?thesis by (auto simp: deleteSession_def sql_def delete_sessions_def)
next
  case True
  have "filter (\<lambda>m. session_id m \<notin> s_id ` set (filter (\<lambda>s. s_id s = sessionId) (sessions d))) (messages d)
      = filter (\<lambda>m. session_id m \<noteq> sessionId) (messages d)"
    using assms by (intro filter_cong) (auto simp: referential_def)
  with True show ?thesis
    by (auto simp: deleteSession_def getSessionMessages_def sql_def delete_sessions_def
        select_messages_def of_session_def)
qed

theorem deleteSession_cascades_witness:
  "referential (store demo_world1)
   \<and> map content (messages (store demo_world1)) = [utf16 ''Hello'', utf16 ''Hi!'']
   \<and> deleteSession demo_env 0 1 (store demo_world1) =
       (Inr (), store demo_world1\<lparr>sessions := [], messages := []\<rparr>)
   \<and> getSessionMessages later_env 0 1 (store demo_world1\<lparr>sessions := [], messages := []\<rparr>) =
       (Inr [], store demo_world1\<lparr>sessions := [], messages := []\<rparr>)"
proof -
  have del: "deleteSession demo_env 0 1 (store demo_world1) =
       (Inr (), store demo_world1\<lparr>sessions := [], messages := []\<rparr>)"
    by (simp add: deleteSession_def sql_def delete_sessions_def demo_env_def demo_world1_def in_int4_1)
  have "reachable later_env 0"
    by (simp add: later_env_def)
  moreover have "map content (messages (store demo_world1)) = [utf16 ''Hello'', utf16 ''Hi!'']"
    by (simp add: demo_world1_def)
  ultimately show ?thesis
    using deleteSession_cascades
      [OF referential_demo_world1, where e = demo_env and k = 0 and sessionId = 1
         and e' = later_env and k' = 0]
      del referential_demo_world1
    by simp
qed

subsection \<open>C7: login resolves a username to one user\<close>

text \<open>
  C7. Once a login with a username has answered with a user, every later login with
  that username on the resulting store answers with the same user (the same id) and
  leaves the store as it is, so no second record is made; it can only fail when the
  store is not reached, and then it changes nothing either.
\<close>

theorem login_idempotent:
  assumes "login e d body = (Success row, d1)"
  shows "login e' d1 body = (if reachable e' 0 then Success row else Failure ''Failed to login'', d1)"
proof -
  from assms obtain raw where body: "body = Some raw" and long: "\<not> length (trim raw) < 2"
    and found: "getOrCreateUser e 0 (toLowerCase (trim raw)) d = (Inr row, d1)"
    by (auto simp: login_def split: option.splits if_splits prod.splits sum.splits)
  let ?name = "toLowerCase (trim raw)"
  from long have "trim raw \<noteq> []"
    by auto
  then have name: "?name \<noteq> []" "last ?name \<noteq> 0x20"
    using normalised_name by blast+
  have as_given: "stored = ?name" if "varchar 50 ?name = Inr stored" for stored
    using varchar_no_trailing_space [OF name that] .
  have "getOrCreateUser e' 0 ?name d1 =
          (if reachable e' 0 then Inr row else Inl ConnectionFailure, d1)"
    using found
    by (auto simp: getOrCreateUser_def sql_def select_users_def insert_users_def Let_def
             split: if_splits list.splits sum.splits dest!: as_given)
  with assms body long show ?thesis
    by (auto simp: login_def)
qed

theorem login_idempotent_witness:
  "login demo_env empty_db (Some (utf16 ''  Ada '')) =
     (Success \<lparr>u_id = 1, username = utf16 ''ada'', u_created_at = 101\<rparr>,
      empty_db\<lparr>users_id_seq := 1, users := [\<lparr>u_id = 1, username = utf16 ''ada'', u_created_at = 101\<rparr>]\<rparr>)
   \<and> login later_env
        (empty_db\<lparr>users_id_seq := 1, users := [\<lparr>u_id = 1, username = utf16 ''ada'', u_created_at = 101\<rparr>]\<rparr>)
        (Some (utf16 ''  Ada '')) =
     (Success \<lparr>u_id = 1, username = utf16 ''ada'', u_created_at = 101\<rparr>,
      empty_db\<lparr>users_id_seq := 1, users := [\<lparr>u_id = 1, username = utf16 ''ada'', u_created_at = 101\<rparr>]\<rparr>)"
  using login_idempotent [OF first_login, where e' = later_env] first_login
  by (simp add: later_env_def)

subsection \<open>C8: the prompt of a turn\<close>

text \<open>
  C8 says that the prompt of every turn is the system message, the earlier messages of the
  session in chronological order, and the new user message once, at the end. The handler
  reads the history back after the append and leaves out its last row
  (\<^verbatim>\<open>history.slice(0, -1)\<close>); the history is sorted by \<^verbatim>\<open>created_at\<close> only. When the
  store's clock at the append is later than every earlier message of the session, the
  last row is the one just appended and the prompt is as C8 says:
\<close>

lemma chat_prompt_when_clock_advances:
  assumes "trim message \<noteq> []"
    and "saveMessage e 0 sessionId user message (store w) = (Inr new, d1)"
    and "reachable e 1"
    and "\<forall>m \<in> set (messages (store w)). session_id m = sessionId \<longrightarrow> m_created_at m < clock e 0"
  shows "prompts (snd (chat e w sessionId (Some message))) =
           prompts w @ [(system, system_prompt)
                        # map (\<lambda>m. (of_role (role m), content m))
                            (order_by_created_at (tie e) (of_session sessionId (store w)))
                        @ [(of_role user, message)]]"
proof -
  let ?new = "\<lparr>m_id = messages_id_seq (store w) + 1, session_id = sessionId, role = user,
                 content = message, m_created_at = clock e 0\<rparr>"
  let ?prior = "order_by_created_at (tie e) (of_session sessionId (store w))"
  have "order_by_created_at (tie e) (of_session sessionId (store w) @ [?new]) = ?prior @ [?new]"
    using assms(4) by (intro order_by_snoc_latest) (simp add: of_session_def)
  then have history: "butlast (order_by_created_at (tie e)
                (filter (\<lambda>m. session_id m = sessionId) (messages (store w)) @ [?new])) = ?prior"
    by (simp add: of_session_def)
  show ?thesis
    using assms(1-3) history
    by (auto simp: chat_defs of_session_def Let_def split: option.splits if_splits)
qed

lemma chat_prompt_second_turn:
  "prompts (snd (chat later_env demo_world1 1 (Some (utf16 ''How are you?'')))) =
     [[(system, system_prompt), (of_role user, utf16 ''Hello'')],
      [(system, system_prompt), (of_role user, utf16 ''Hello''), (of_role assistant, utf16 ''Hi!''),
       (of_role user, utf16 ''How are you?'')]]"
  by (simp add: chat_defs of_session_def order_by_created_at_def demo_defs trim_How sample_facts Let_def)

text \<open>
  C8, where the code departs from it. Session 1 holds \<open>Hello\<close> (created at 100) and
  \<open>Hi!\<close> (created at 102). The turn \<open>How are you?\<close> is appended while the store's
  clock still shows 102, and the store delivers the new row before the one it ties with.
  The last row of the history is then \<open>Hi!\<close>: the handler drops it and keeps the row
  just appended, so the new message is sent twice and the earlier answer not at all.
\<close>

theorem chat_prompt_repeats_new_message_on_tie:
  "prompts (snd (chat same_tick_env demo_world1 1 (Some (utf16 ''How are you?'')))) =
     [[(system, system_prompt), (of_role user, utf16 ''Hello'')],
      [(system, system_prompt), (of_role user, utf16 ''Hello''), (of_role user, utf16 ''How are you?''),
       (of_role user, utf16 ''How are you?'')]]"
  by (simp add: chat_defs of_session_def order_by_created_at_def demo_defs trim_How sample_facts Let_def)

text \<open>The same happens when the clock at the append is behind an earlier message.\<close>

lemma chat_prompt_clock_not_later:
  "last (prompts (snd (chat demo_env demo_world1 1 (Some (utf16 ''How are you?''))))) =
     [(system, system_prompt), (of_role user, utf16 ''Hello''), (of_role user, utf16 ''How are you?''),
      (of_role user, utf16 ''How are you?'')]"
  by (simp add: chat_defs of_session_def order_by_created_at_def demo_defs trim_How sample_facts Let_def)

subsection \<open>C9: ids that do not exist\<close>

text \<open>
  C9, as the specification has it: on an id that does not exist the repository functions,
  the append among them, do nothing or return the empty list and do not throw. The append
  is an INSERT of a row whose \<^verbatim>\<open>session_id\<close> references \<^verbatim>\<open>sessions(id)\<close>: on a
  session id that is not in the store it is rejected, and the chat endpoint answers with
  the failure envelope. An id that is no value of INTEGER is in no store either, and
  every statement with it is rejected.
\<close>

theorem saveMessage_nonexistent_session_throws:
  "99 \<notin> s_id ` set (sessions demo_db)
   \<and> fst (saveMessage demo_env 0 99 user (utf16 ''hi'') demo_db) = Inl ForeignKeyViolation
   \<and> fst (chat demo_env demo_world 99 (Some (utf16 ''hi''))) = Failure ''Failed to process message''
   \<and> 2147483648 \<notin> s_id ` set (sessions demo_db)
   \<and> fst (deleteSession demo_env 0 2147483648 demo_db) = Inl NumericValueOutOfRange"
proof -
  have "trim (utf16 ''hi'') = utf16 ''hi''"
    by (simp add: trim_def is_space_def utf16_def)
  then show ?thesis
    by (simp add: chat_def saveMessage_def deleteSession_def delete_sessions_def sql_def
        insert_messages_def in_int4_def sample_facts demo_env_def demo_db_def demo_world_def Let_def)
qed

text \<open>
  C9, amended. On a store whose references hold and which is reached, for a session id
  and a user id that are values of INTEGER and are not in the store: the rename (with a
  title the store takes as it is: no code unit 0, no lone surrogate, at most 100
  characters), the delete and the clear succeed and leave the store as it is, and the two
  lists are empty. The append of a message on a session id that is not in the store
  throws, whatever the message, and stores no row.
\<close>

theorem nonexistent_ids_tolerated_except_append:
  assumes "referential d"
    and "sessionId \<notin> s_id ` set (sessions d)" and "in_int4 sessionId"
    and "userId \<notin> u_id ` set (users d)" and "in_int4 userId"
    and "reachable e k"
    and "sendable t" and "char_length t \<le> 100"
  shows "updateSessionTitle e k sessionId t d = (Inr (), d)
         \<and> deleteSession e k sessionId d = (Inr (), d)
         \<and> getSessionMessages e k sessionId d = (Inr [], d)
         \<and> clearSessionMessages e k sessionId d = (Inr (), d)
         \<and> getUserSessions e k userId d = (Inr [], d)
         \<and> (\<exists>err d'. saveMessage e k sessionId r c d = (Inl err, d')
               \<and> messages d' = messages d \<and> sessions d' = sessions d \<and> users d' = users d)"
proof -
  have s: "\<forall>s \<in> set (sessions d). s_id s \<noteq> sessionId"
    using assms(2) by auto
  have m: "\<forall>m \<in> set (messages d). session_id m \<noteq> sessionId"
    using assms(1,2) by (auto simp: referential_def)
  have u: "\<forall>s \<in> set (sessions d). user_id s \<noteq> userId"
    using assms(1,4) by (auto simp: referential_def)
  have same_titles: "map (\<lambda>s. if s_id s = sessionId then s\<lparr>title := t\<rparr> else s) (sessions d) = sessions d"
    using s by (simp add: map_idI)
  have all_sessions: "filter (\<lambda>s. s_id s \<noteq> sessionId) (sessions d) = sessions d"
    using s by simp
  have no_session: "filter (\<lambda>s. s_id s = sessionId) (sessions d) = []"
    using s by simp
  have no_message: "filter (\<lambda>m. session_id m = sessionId) (messages d) = []"
    using m by simp
  have all_messages: "filter (\<lambda>m. session_id m \<noteq> sessionId) (messages d) = messages d"
    using m by simp
  have no_session_of_user: "filter (\<lambda>s. user_id s = userId) (sessions d) = []"
    using u by simp
  have fits: "varchar 100 t = Inr t"
    using assms(8) by (simp add: varchar_def)
  have quiet: "updateSessionTitle e k sessionId t d = (Inr (), d)
         \<and> deleteSession e k sessionId d = (Inr (), d)
         \<and> getSessionMessages e k sessionId d = (Inr [], d)
         \<and> clearSessionMessages e k sessionId d = (Inr (), d)
         \<and> getUserSessions e k userId d = (Inr [], d)"
    using assms(3,5,6,7)
    by (simp add: updateSessionTitle_def deleteSession_def getSessionMessages_def
        clearSessionMessages_def getUserSessions_def sql_def update_sessions_def
        delete_sessions_def select_messages_def of_session_def delete_messages_def
        select_sessions_def fits same_titles all_sessions no_session no_message
        all_messages no_session_of_user Let_def)
  have thrown: "\<exists>err d'. saveMessage e k sessionId r c d = (Inl err, d')
               \<and> messages d' = messages d \<and> sessions d' = sessions d \<and> users d' = users d"
    using assms(2) by (simp add: saveMessage_def sql_def insert_messages_def Let_def)
  from quiet thrown show ?thesis
    by blast
qed

theorem nonexistent_ids_tolerated_except_append_witness:
  "updateSessionTitle demo_env 0 99 (utf16 ''Trip'') demo_db = (Inr (), demo_db)
   \<and> deleteSession demo_env 0 99 demo_db = (Inr (), demo_db)
   \<and> getSessionMessages demo_env 0 99 demo_db = (Inr [], demo_db)
   \<and> clearSessionMessages demo_env 0 99 demo_db = (Inr (), demo_db)
   \<and> getUserSessions demo_env 0 42 demo_db = (Inr [], demo_db)
   \<and> (\<exists>err d'. saveMessage demo_env 0 99 user (utf16 ''hi'') demo_db = (Inl err, d')
         \<and> messages d' = messages demo_db \<and> sessions d' = sessions demo_db)"
proof -
  have "99 \<notin> s_id ` set (sessions demo_db)" and "42 \<notin> u_id ` set (users demo_db)"
    and "reachable demo_env 0" and "sendable (utf16 ''Trip'')" and "char_length (utf16 ''Trip'') \<le> 100"
    by (simp_all add: demo_db_def demo_env_def sample_facts char_length_utf16)
  then show ?thesis
    using nonexistent_ids_tolerated_except_append
      [OF referential_demo_db _ in_int4_99 _ in_int4_42, where e = demo_env and k = 0
         and t = "utf16 ''Trip''" and r = user and c = "utf16 ''hi''"]
    by blast
qed

subsection \<open>C10: the title of a new session\<close>

text \<open>
  C10, as the claim has it: the title of the new session is \<open>New Chat\<close> for an absent
  or empty title, and a non-empty title is used as given. The column is VARCHAR(100): a
  title of one hundred letters and a space is taken, and stored without the space.
\<close>

theorem post_sessions_cuts_long_title:
  "long_title = replicate 100 0x61 @ [0x20]
   \<and> post_sessions demo_env demo_db 1 (Some long_title) =
       (Success \<lparr>s_id = 2, user_id = 1, title = replicate 100 0x61, s_created_at = 100\<rparr>,
        demo_db\<lparr>sessions_id_seq := 2,
                 sessions := sessions demo_db @
                   [\<lparr>s_id = 2, user_id = 1, title = replicate 100 0x61, s_created_at = 100\<rparr>]\<rparr>)"
proof -
  have "long_title \<noteq> []"
    by (simp add: long_title_def)
  then show ?thesis
    by (simp add: post_sessions_def createSession_def sql_def insert_sessions_def in_int4_1
        sendable_long_title varchar_long_title demo_env_def demo_db_def Let_def)
      (simp add: long_title_def)
qed

text \<open>
  C10, amended. Whenever the session-creation endpoint answers with a session, the
  session is the one new row of the store, it belongs to the given user, and its title is
  \<open>New Chat\<close> when the request has no title or the empty title, the given title when
  that is not empty and has at most 100 characters, and the first 100 characters of the
  given title when it is longer (the store takes a longer title only when what it cuts
  off is spaces).
\<close>

theorem post_sessions_default_title:
  assumes "post_sessions e d userId body_title = (Success row, d')"
  shows "title row = (case body_title of
                        None \<Rightarrow> utf16 ''New Chat''
                      | Some t \<Rightarrow> if t = [] then utf16 ''New Chat''
                                  else if char_length t \<le> 100 then t
                                  else concat (take 100 (chars t)))
         \<and> (case body_title of
                None \<Rightarrow> True
              | Some t \<Rightarrow> char_length t \<le> 100 \<or> (\<forall>u \<in> set (concat (drop 100 (chars t))). u = 0x20))
         \<and> user_id row = userId
         \<and> sessions d' = sessions d @ [row]"
proof -
  have new_chat: "char_length (utf16 ''New Chat'') \<le> 100"
    by (simp add: char_length_utf16)
  show ?thesis
    using assms
    by (auto simp: post_sessions_def createSession_def sql_def insert_sessions_def new_chat Let_def
                   varchar_def
             split: option.splits if_splits sum.splits)
qed

theorem post_sessions_default_title_witness:
  "(\<exists>row d'. post_sessions demo_env demo_db 1 None = (Success row, d') \<and> title row = utf16 ''New Chat'')
   \<and> (\<exists>row d'. post_sessions demo_env demo_db 1 (Some []) = (Success row, d') \<and> title row = utf16 ''New Chat'')
   \<and> (\<exists>row d'. post_sessions demo_env demo_db 1 (Some (utf16 ''Trip'')) = (Success row, d')
         \<and> title row = utf16 ''Trip'')"
proof -
  let ?row = "\<lambda>t. \<lparr>s_id = 2, user_id = 1, title = t, s_created_at = 100\<rparr>"
  let ?d' = "\<lambda>t. demo_db\<lparr>sessions_id_seq := 2, sessions := sessions demo_db @ [?row t]\<rparr>"
  have none: "post_sessions demo_env demo_db 1 None = (Success (?row (utf16 ''New Chat'')), ?d' (utf16 ''New Chat''))"
    and empty: "post_sessions demo_env demo_db 1 (Some []) = (Success (?row (utf16 ''New Chat'')), ?d' (utf16 ''New Chat''))"
    and trip: "post_sessions demo_env demo_db 1 (Some (utf16 ''Trip'')) = (Success (?row (utf16 ''Trip'')), ?d' (utf16 ''Trip''))"
    by (simp_all add: post_sessions_def createSession_def sql_def insert_sessions_def sample_facts
        demo_env_def demo_db_def Let_def)
  have "char_length (utf16 ''Trip'') \<le> 100"
    by (simp add: char_length_utf16)
  then show ?thesis
    using post_sessions_default_title [OF none] post_sessions_default_title [OF empty]
      post_sessions_default_title [OF trip] none empty trip
    by simp
qed

end
